theory Spec2Isabelle
  imports Complex_Main "HOL-Library.Word" "HOL-Library.Signed_Division"
begin

section \<open>Autoscaler metric clients and the gateway metric store of aibrix\<close>

text \<open>
  The development embeds, from the Go sources: the pod autoscaler's metric clients
  (\<open>PodMetricClient\<close>, \<open>KPAMetricsClient\<close>, \<open>APAMetricsClient\<close>), the refresh pipeline
  of the gateway cache (\<open>getPodMetricRefreshInterval\<close>, \<open>updatePodMetrics\<close> and its
  helpers, \<open>updatePodRecordLocked\<close>) and the start-up of the trace loop
  (\<open>initTraceCache\<close>).

  Conventions. A Go \<open>float64\<close> value is a \<open>real\<close>: infinities and NaN are outside the
  model. The addition of \<open>float64\<close> rounds and is not the addition of the reals: the
  summing loops of the sources add with a parameter \<open>add64\<close>, the addition of the
  machine, of which nothing is assumed. The window, which is modelled from the spec,
  averages in the reals. A \<open>time.Time\<close> is the number of nanoseconds since the Unix epoch and a
  \<open>time.Duration\<close> a number of nanoseconds, both \<open>int\<close>; where a duration is computed
  by a multiplication that can overflow, it is a 64-bit word. A Go \<open>error\<close> is a value of
  the datatype \<open>error\<close>, \<open>nil\<close> is \<open>None\<close>, and a function that returns several values
  returns a tuple. A run-time panic is the value \<open>Panic\<close> of the type \<open>result\<close>. A Go map
  is a partial function; a map that is \<open>nil\<close> and a key that is absent both read as
  \<open>None\<close>. The mutexes of the clients are not modelled: every function is the sequential
  effect of one call. Methods of one name on several receivers are told apart by the
  receiver's name: the dual-window client keeps the names of the source, the base client
  has the prefix \<open>PodMetricClient_\<close> and the single-window client the prefix \<open>APA_\<close>.
\<close>

subsection \<open>Shared types\<close>

text \<open>
  Modelled from the spec: the type \<open>NamespaceNameMetric\<close> is declared in a file that is not
  part of the sources. The spec gives it as the composite key
  (namespace, name, metric identifier) with structural equality.
\<close>

type_synonym NamespaceNameMetric = "string \<times> string \<times> string"

datatype error =
    KeyNotFound string NamespaceNameMetric
  | EmptyWindow
  | ScopeMismatch string
  | ScopeNotSupported
  | External string

datatype 'a result = Return 'a | Panic string

text \<open>
  Of a \<open>corev1.Pod\<close> the sources read the name, the IP of the status, and readiness
  (through \<open>utils.FilterReadyPods\<close>, which is not part of the sources: the field
  \<open>Ready\<close> is its verdict on the pod).
\<close>

record Pod =
  Name :: string
  PodIP :: string
  Ready :: bool

subsection \<open>TimeWindow\<close>

text \<open>
  Modelled from the spec: the package \<open>aggregation\<close> (\<open>TimeWindow\<close>, \<open>NewTimeWindow\<close>,
  \<open>Record\<close>, \<open>Avg\<close>) is not part of the sources. The spec describes a ring of
  \<open>duration / granularity\<close> buckets, each holding a bucket start, a value and a
  populated flag; \<open>Record\<close> writes the slot \<open>floor (t / granularity) mod bucketCount\<close>;
  the average at a time \<open>now\<close> is the unweighted mean of the populated buckets whose
  start lies in \<open>[now - duration, now]\<close> and fails with EmptyWindow when there is none.

  \<open>AvgAt\<close> is the average of the spec, which takes the time as an argument. The
  clients call \<open>Avg\<close> with no argument, and neither the spec nor the sources say at
  which time the window is then read. It can only be a time the window keeps itself,
  and the choice made here is the time of the latest \<open>Record\<close>, kept in \<open>lastRecord\<close>.
  Of this choice the properties below use that \<open>Avg\<close> fails with EmptyWindow only, and
  that it agrees with \<open>AvgAt\<close> at the time of a \<open>Record\<close> that has just been made; what
  is proved about the time a reader supplies is proved for every zero-argument average,
  not for this one. A window that has no bucket or no positive granularity records
  nothing.
\<close>

record Bucket =
  start :: int
  val :: real
  populated :: bool

record TimeWindow =
  tw_duration :: int
  tw_granularity :: int
  buckets :: "Bucket list"
  lastRecord :: "int option"

definition NewTimeWindow :: "int \<Rightarrow> int \<Rightarrow> TimeWindow" where
  "NewTimeWindow d g =
     \<lparr>tw_duration = d, tw_granularity = g,
      buckets = replicate (nat (d div g)) \<lparr>start = 0, val = 0, populated = False\<rparr>,
      lastRecord = None\<rparr>"

definition Record :: "TimeWindow \<Rightarrow> int \<Rightarrow> real \<Rightarrow> TimeWindow" where
  "Record w t v =
     (let n = int (length (buckets w)); slot = t div tw_granularity w in
      if tw_granularity w \<le> 0 \<or> n = 0 then w
      else w\<lparr>buckets := (buckets w)[nat (slot mod n) :=
                  \<lparr>start = slot * tw_granularity w, val = v, populated = True\<rparr>],
             lastRecord := Some t\<rparr>)"

definition inRange :: "TimeWindow \<Rightarrow> int \<Rightarrow> Bucket \<Rightarrow> bool" where
  "inRange w now b = (populated b \<and> now - tw_duration w \<le> start b \<and> start b \<le> now)"

text \<open>The loop of the average: the running sum and the running count.\<close>

fun accumulate :: "TimeWindow \<Rightarrow> int \<Rightarrow> Bucket list \<Rightarrow> real \<times> nat \<Rightarrow> real \<times> nat" where
  "accumulate w now [] acc = acc"
| "accumulate w now (b # bs) (s, n) =
     accumulate w now bs (if inRange w now b then (s + val b, Suc n) else (s, n))"

definition AvgAt :: "TimeWindow \<Rightarrow> int \<Rightarrow> error + real" where
  "AvgAt w now =
     (case accumulate w now (buckets w) (0, 0) of
        (s, n) \<Rightarrow> if n = 0 then Inl EmptyWindow else Inr (s / real n))"

definition Avg :: "TimeWindow \<Rightarrow> error + real" where
  "Avg w = (case lastRecord w of None \<Rightarrow> Inl EmptyWindow | Some t \<Rightarrow> AvgAt w t)"

text \<open>The spec's words for the same average: the samples that count, and their mean.\<close>

definition validSamples :: "TimeWindow \<Rightarrow> int \<Rightarrow> real list" where
  "validSamples w now = map val (filter (inRange w now) (buckets w))"

definition unweightedMean :: "real list \<Rightarrow> real" where
  "unweightedMean xs = sum_list xs / real (length xs)"

subsection \<open>The metric clients\<close>

text \<open>
  \<open>MetricFetcher\<close> is an interface: the client holds one implementation, here the
  function \<open>FetchPodMetrics\<close> (pod, port, metric name) of the fetcher.
\<close>

record PodMetricClient =
  fetcher :: "Pod \<Rightarrow> int \<Rightarrow> string \<Rightarrow> error + real"



definition PodMetricClient_UpdatePodListMetric ::
  "PodMetricClient \<Rightarrow> real list \<Rightarrow> NamespaceNameMetric \<Rightarrow> int \<Rightarrow> (error option) result" where
  "PodMetricClient_UpdatePodListMetric c metricValues metricKey now = Panic ''implement me''"

definition NewMetricsClient :: "(Pod \<Rightarrow> int \<Rightarrow> string \<Rightarrow> error + real) \<Rightarrow> PodMetricClient" where
  "NewMetricsClient f = \<lparr>fetcher = f\<rparr>"

definition Second :: int where
  "Second = 1000000000"

record KPAMetricsClient =
  kpa_PodMetricClient :: PodMetricClient
  stableDuration :: int
  panicDuration :: int
  granularity :: int
  panicWindowDict :: "NamespaceNameMetric \<rightharpoonup> TimeWindow"
  stableWindowDict :: "NamespaceNameMetric \<rightharpoonup> TimeWindow"

definition NewKPAMetricsClient :: "(Pod \<Rightarrow> int \<Rightarrow> string \<Rightarrow> error + real) \<Rightarrow> KPAMetricsClient" where
  "NewKPAMetricsClient f =
     \<lparr>kpa_PodMetricClient = NewMetricsClient f,
      stableDuration = 60 * Second,
      panicDuration = 10 * Second,
      granularity = Second,
      panicWindowDict = Map.empty,
      stableWindowDict = Map.empty\<rparr>"

text \<open>
  The closure \<open>updateWindow\<close> of \<open>UpdateMetricIntoWindow\<close>; what it captures (the
  granularity, the key, the time and the value) is passed to it.
\<close>

definition updateWindow ::
  "int \<Rightarrow> NamespaceNameMetric \<Rightarrow> int \<Rightarrow> real \<Rightarrow>
   (NamespaceNameMetric \<rightharpoonup> TimeWindow) \<Rightarrow> int \<Rightarrow> (NamespaceNameMetric \<rightharpoonup> TimeWindow)" where
  "updateWindow gran metricKey now metricValue windowDict dur =
     (let window = (case windowDict metricKey of
                      None \<Rightarrow> NewTimeWindow dur gran
                    | Some w \<Rightarrow> w)
      in windowDict(metricKey \<mapsto> Record window now metricValue))"

definition UpdateMetricIntoWindow ::
  "KPAMetricsClient \<Rightarrow> NamespaceNameMetric \<Rightarrow> int \<Rightarrow> real \<Rightarrow> KPAMetricsClient \<times> error option" where
  "UpdateMetricIntoWindow c metricKey now metricValue =
     (let c1 = c\<lparr>panicWindowDict :=
                  updateWindow (granularity c) metricKey now metricValue
                    (panicWindowDict c) (panicDuration c)\<rparr>;
          c2 = c1\<lparr>stableWindowDict :=
                  updateWindow (granularity c1) metricKey now metricValue
                    (stableWindowDict c1) (stableDuration c1)\<rparr>
      in (c2, None))"

text \<open>
  The summing loop of both \<open>UpdatePodListMetric\<close>: from 0, left to right, each step
  the \<open>float64\<close> addition \<open>add64\<close> of the running sum and the next value.
\<close>

definition sumMetricValue :: "(real \<Rightarrow> real \<Rightarrow> real) \<Rightarrow> real list \<Rightarrow> real" where
  "sumMetricValue add64 metricValues = foldl add64 0 metricValues"

definition UpdatePodListMetric ::
  "(real \<Rightarrow> real \<Rightarrow> real) \<Rightarrow> KPAMetricsClient \<Rightarrow> real list \<Rightarrow> NamespaceNameMetric \<Rightarrow> int \<Rightarrow>
   KPAMetricsClient \<times> error option" where
  "UpdatePodListMetric add64 c metricValues metricKey now =
     (case UpdateMetricIntoWindow c metricKey now (sumMetricValue add64 metricValues) of
        (c', Some err) \<Rightarrow> (c', Some err)
      | (c', None) \<Rightarrow> (c', None))"

definition StableAndPanicMetrics ::
  "KPAMetricsClient \<Rightarrow> NamespaceNameMetric \<Rightarrow> int \<Rightarrow> real \<times> real \<times> error option" where
  "StableAndPanicMetrics c metricKey now =
     (case panicWindowDict c metricKey of
        None \<Rightarrow> (-1, -1, Some (KeyNotFound ''panic'' metricKey))
      | Some panicWindow \<Rightarrow>
          (case Avg panicWindow of
             Inl err \<Rightarrow> (-1, -1, Some err)
           | Inr panicValue \<Rightarrow>
               (case stableWindowDict c metricKey of
                  None \<Rightarrow> (-1, -1, Some (KeyNotFound ''stable'' metricKey))
                | Some stableWindow \<Rightarrow>
                    (case Avg stableWindow of
                       Inl err \<Rightarrow> (-1, -1, Some err)
                     | Inr stableValue \<Rightarrow> (stableValue, panicValue, None)))))"

record APAMetricsClient =
  apa_PodMetricClient :: PodMetricClient
  apa_duration :: int
  apa_granularity :: int
  windowDict :: "NamespaceNameMetric \<rightharpoonup> TimeWindow"

definition NewAPAMetricsClient :: "(Pod \<Rightarrow> int \<Rightarrow> string \<Rightarrow> error + real) \<Rightarrow> APAMetricsClient" where
  "NewAPAMetricsClient f =
     \<lparr>apa_PodMetricClient = NewMetricsClient f,
      apa_duration = 60 * Second,
      apa_granularity = Second,
      windowDict = Map.empty\<rparr>"

definition APA_UpdateMetricIntoWindow ::
  "APAMetricsClient \<Rightarrow> NamespaceNameMetric \<Rightarrow> int \<Rightarrow> real \<Rightarrow> APAMetricsClient \<times> error option" where
  "APA_UpdateMetricIntoWindow c metricKey now metricValue =
     (c\<lparr>windowDict :=
          updateWindow (apa_granularity c) metricKey now metricValue
            (windowDict c) (apa_duration c)\<rparr>, None)"

definition APA_UpdatePodListMetric ::
  "(real \<Rightarrow> real \<Rightarrow> real) \<Rightarrow> APAMetricsClient \<Rightarrow> real list \<Rightarrow> NamespaceNameMetric \<Rightarrow> int \<Rightarrow>
   APAMetricsClient \<times> error option" where
  "APA_UpdatePodListMetric add64 c metricValues metricKey now =
     (case APA_UpdateMetricIntoWindow c metricKey now (sumMetricValue add64 metricValues) of
        (c', Some err) \<Rightarrow> (c', Some err)
      | (c', None) \<Rightarrow> (c', None))"

definition GetMetricValue ::
  "APAMetricsClient \<Rightarrow> NamespaceNameMetric \<Rightarrow> int \<Rightarrow> real \<times> error option" where
  "GetMetricValue c metricKey now =
     (case windowDict c metricKey of
        None \<Rightarrow> (-1, Some (KeyNotFound '''' metricKey))
      | Some window \<Rightarrow>
          (case Avg window of
             Inl err \<Rightarrow> (-1, Some err)
           | Inr metricValue \<Rightarrow> (metricValue, None)))"

text \<open>
  The states a dual-window client can be in: \<open>NewKPAMetricsClient\<close> builds it, and the
  two update methods are the only code that writes its dictionaries. The history of a
  client is the list of these calls; the \<open>float64\<close> addition that \<open>UpdatePodListMetric\<close>
  sums with is a parameter of the run.
\<close>

datatype KPACall =
    CallUpdateMetricIntoWindow NamespaceNameMetric int real
  | CallUpdatePodListMetric "real list" NamespaceNameMetric int

fun callKey :: "KPACall \<Rightarrow> NamespaceNameMetric" where
  "callKey (CallUpdateMetricIntoWindow k t v) = k"
| "callKey (CallUpdatePodListMetric vs k t) = k"

fun applyCall :: "(real \<Rightarrow> real \<Rightarrow> real) \<Rightarrow> KPAMetricsClient \<Rightarrow> KPACall \<Rightarrow> KPAMetricsClient" where
  "applyCall add64 c (CallUpdateMetricIntoWindow k t v) = fst (UpdateMetricIntoWindow c k t v)"
| "applyCall add64 c (CallUpdatePodListMetric vs k t) = fst (UpdatePodListMetric add64 c vs k t)"

definition clientAfter ::
  "(real \<Rightarrow> real \<Rightarrow> real) \<Rightarrow> (Pod \<Rightarrow> int \<Rightarrow> string \<Rightarrow> error + real) \<Rightarrow> KPACall list \<Rightarrow>
   KPAMetricsClient" where
  "clientAfter add64 f calls = foldl (applyCall add64) (NewKPAMetricsClient f) calls"

text \<open>
  The two readers with the method \<open>Avg\<close> of the window as a parameter: \<open>Avg\<close> is not
  part of the sources, and the text of the readers decides what follows for every
  method in its place.
\<close>

definition StableAndPanicMetricsWith ::
  "(TimeWindow \<Rightarrow> error + real) \<Rightarrow> KPAMetricsClient \<Rightarrow> NamespaceNameMetric \<Rightarrow> int \<Rightarrow>
   real \<times> real \<times> error option" where
  "StableAndPanicMetricsWith avg c metricKey now =
     (case panicWindowDict c metricKey of
        None \<Rightarrow> (-1, -1, Some (KeyNotFound ''panic'' metricKey))
      | Some panicWindow \<Rightarrow>
          (case avg panicWindow of
             Inl err \<Rightarrow> (-1, -1, Some err)
           | Inr panicValue \<Rightarrow>
               (case stableWindowDict c metricKey of
                  None \<Rightarrow> (-1, -1, Some (KeyNotFound ''stable'' metricKey))
                | Some stableWindow \<Rightarrow>
                    (case avg stableWindow of
                       Inl err \<Rightarrow> (-1, -1, Some err)
                     | Inr stableValue \<Rightarrow> (stableValue, panicValue, None)))))"

definition GetMetricValueWith ::
  "(TimeWindow \<Rightarrow> error + real) \<Rightarrow> APAMetricsClient \<Rightarrow> NamespaceNameMetric \<Rightarrow> int \<Rightarrow>
   real \<times> error option" where
  "GetMetricValueWith avg c metricKey now =
     (case windowDict c metricKey of
        None \<Rightarrow> (-1, Some (KeyNotFound '''' metricKey))
      | Some window \<Rightarrow>
          (case avg window of
             Inl err \<Rightarrow> (-1, Some err)
           | Inr metricValue \<Rightarrow> (metricValue, None)))"

subsection \<open>The metric store\<close>

text \<open>
  Modelled from the spec: the package \<open>metrics\<close> of the gateway (\<open>MetricScope\<close> and its
  constants, \<open>MetricValue\<close> and its implementations, \<open>Metric\<close>, the table \<open>Metrics\<close>, the
  metric names, \<open>ParseMetricsURL\<close>, \<open>GetLabelValueForKey\<close>, \<open>GetCounterGaugeValue\<close>,
  \<open>GetHistogramValue\<close>, \<open>BuildQuery\<close>) is not part of the sources; what the sources call
  is declared here. The spec gives the scope as instance or (instance, model);
  \<open>updatePodRecordLocked\<close> has a branch for a scope that is neither, which is
  \<open>OtherScope\<close>. The spec gives the metric value as a tagged union of a simple value, a
  histogram, a label value and the result of a query; the result of a query is kept as
  a string.
\<close>

datatype MetricScope = PodMetricScope | PodModelMetricScope | OtherScope string

datatype MetricValue =
    SimpleMetricValue real
  | HistogramMetricValue real real "(string \<times> real) list"
  | LabelValueMetricValue string
  | PrometheusMetricValue string

record Metric =
  MetricScope :: MetricScope
  RawMetricName :: string
  PromQL :: string

text \<open>
  A \<open>dto.MetricFamily\<close> is read through \<open>GetType\<close> and its field \<open>Metric\<close>; a
  \<open>dto.Metric\<close> is only handed to functions of the package \<open>metrics\<close>, so its type is a
  parameter.
\<close>

record 'm MetricFamily =
  Type :: nat
  Metric :: "'m list"

text \<open>
  The collaborators of the refresh pipeline that are not part of the sources, as
  parameters: the functions of the package \<open>metrics\<close>, its table of metric definitions,
  and the four lists of metric names (the lists are in the sources, the names they hold
  are constants of the package). \<open>ParseMetricsURL\<close> returns a map and an error, and the
  source reads the map whatever the error is. \<open>GetLabelValueForKey\<close> also returns an
  error, which the source drops.
\<close>

record 'm Collaborators =
  ParseMetricsURL :: "string \<Rightarrow> (string \<rightharpoonup> 'm MetricFamily) \<times> error option"
  Metrics :: "string \<rightharpoonup> Metric"
  GetLabelValueForKey :: "'m \<Rightarrow> string \<Rightarrow> string"
  GetCounterGaugeValue :: "'m \<Rightarrow> nat \<Rightarrow> error + real"
  GetHistogramValue :: "'m \<Rightarrow> error + real \<times> real \<times> (string \<times> real) list"
  BuildQuery :: "string \<Rightarrow> (string \<rightharpoonup> string) \<Rightarrow> string"
  counterGaugeMetricNames :: "string list"
  histogramMetricNames :: "string list"
  prometheusMetricNames :: "string list"
  labelQueryMetricNames :: "string list"

text \<open>
  Of the \<open>Store\<close>, the fields the refresh pipeline touches. \<open>prometheusApi\<close> is an
  interface value, \<open>None\<close> when it is \<open>nil\<close>; of its method \<open>Query\<close> the result and the
  error are kept. \<open>Pods\<close> and the sets of \<open>PodToModelMapping\<close> are Go maps that the source
  iterates: they are lists, in the order of the iteration.
\<close>

record Store =
  prometheusApi :: "(string \<Rightarrow> string \<times> error option) option"
  Pods :: "(string \<times> Pod) list"
  PodMetrics :: "string \<rightharpoonup> (string \<rightharpoonup> MetricValue)"
  PodModelMetrics :: "string \<rightharpoonup> (string \<rightharpoonup> (string \<rightharpoonup> MetricValue))"
  PodToModelMapping :: "string \<rightharpoonup> string list"

text \<open>
  What a call of \<open>updatePodMetrics\<close> does beyond writing the store, in order: the lock
  and the unlock of the store's mutex, the HTTP request of \<open>ParseMetricsURL\<close>, and the
  \<open>klog\<close> lines of \<open>updatePodMetrics\<close> itself (the lines of its helpers are left out).
\<close>

datatype event = MuLock | MuUnlock | HttpGet string | Klog string

text \<open>Modelled from the spec: \<open>utils.FilterReadyPods\<close> keeps the pods that are ready.\<close>

definition FilterReadyPods :: "(string \<times> Pod) list \<Rightarrow> Pod list" where
  "FilterReadyPods pods = filter Ready (map snd pods)"

text \<open>\<open>len(m) == 0\<close> for a map read from a map: true when it is absent, nil or empty.\<close>

definition lenZero :: "('k \<rightharpoonup> 'v) option \<Rightarrow> bool" where
  "lenZero m = (case m of None \<Rightarrow> True | Some r \<Rightarrow> dom r = {})"

text \<open>A Go \<open>for range\<close> whose body may panic: the panic ends the loop.\<close>

fun forEach :: "('s \<Rightarrow> 'a \<Rightarrow> 's result) \<Rightarrow> 'a list \<Rightarrow> 's \<Rightarrow> 's result" where
  "forEach body [] s = Return s"
| "forEach body (x # xs) s =
     (case body s x of Panic msg \<Rightarrow> Panic msg | Return s' \<Rightarrow> forEach body xs s')"

text \<open>
  \<open>updatePodRecordLocked\<close> returns the store and the error. Writing into the row of a pod
  that has none is an assignment to an entry of a nil map, which panics.
\<close>

definition updatePodRecordLocked ::
  "Store \<Rightarrow> string \<Rightarrow> string \<Rightarrow> string \<Rightarrow> MetricScope \<Rightarrow> MetricValue \<Rightarrow>
   (Store \<times> error option) result" where
  "updatePodRecordLocked c podName modelName metricName scope metricValue =
     (if scope = PodMetricScope then
        (if modelName \<noteq> '''' then
           Return (c, Some (ScopeMismatch ''modelName should be empty for scope''))
         else
           (case PodMetrics c podName of
              None \<Rightarrow> Panic ''assignment to entry in nil map''
            | Some row \<Rightarrow>
                Return (c\<lparr>PodMetrics :=
                           (PodMetrics c)(podName \<mapsto> row(metricName \<mapsto> metricValue))\<rparr>, None)))
      else if scope = PodModelMetricScope then
        (if modelName = '''' then
           Return (c, Some (ScopeMismatch ''modelName should not be empty for scope''))
         else
           (case PodModelMetrics c podName of
              None \<Rightarrow> Panic ''assignment to entry in nil map''
            | Some models \<Rightarrow>
                (let models1 = (if lenZero (models modelName)
                                then models(modelName \<mapsto> Map.empty) else models)
                 in case models1 modelName of
                      None \<Rightarrow> Panic ''assignment to entry in nil map''
                    | Some row \<Rightarrow>
                        Return (c\<lparr>PodModelMetrics :=
                                   (PodModelMetrics c)(podName \<mapsto>
                                      models1(modelName \<mapsto> row(metricName \<mapsto> metricValue)))\<rparr>,
                                None))))
      else Return (c, Some ScopeNotSupported))"

definition updateSimpleMetricFromRawMetricsLocked ::
  "'m Collaborators \<Rightarrow> Store \<Rightarrow> Pod \<Rightarrow> (string \<rightharpoonup> 'm MetricFamily) \<Rightarrow> Store result" where
  "updateSimpleMetricFromRawMetricsLocked env c pod allMetrics =
     forEach (\<lambda>c metricName.
        case Metrics env metricName of
          None \<Rightarrow> Return c
        | Some metric \<Rightarrow>
            (case allMetrics (''vllm:'' @ metricName) of
               None \<Rightarrow> Return c
             | Some metricFamily \<Rightarrow>
                 forEach (\<lambda>c familyMetric.
                    let modelName = GetLabelValueForKey env familyMetric ''model_name'' in
                    case GetCounterGaugeValue env familyMetric (Type metricFamily) of
                      Inl err \<Rightarrow> Return c
                    | Inr metricValue \<Rightarrow>
                        (case updatePodRecordLocked c (Name pod) modelName metricName
                                (MetricScope metric) (SimpleMetricValue metricValue) of
                           Panic msg \<Rightarrow> Panic msg
                         | Return (c', err) \<Rightarrow> Return c'))
                   (Metric metricFamily) c))
       (counterGaugeMetricNames env) c"

definition updateHistogramMetricFromRawMetricsLocked ::
  "'m Collaborators \<Rightarrow> Store \<Rightarrow> Pod \<Rightarrow> (string \<rightharpoonup> 'm MetricFamily) \<Rightarrow> Store result" where
  "updateHistogramMetricFromRawMetricsLocked env c pod allMetrics =
     forEach (\<lambda>c metricName.
        case Metrics env metricName of
          None \<Rightarrow> Return c
        | Some metric \<Rightarrow>
            (case allMetrics (''vllm:'' @ metricName) of
               None \<Rightarrow> Return c
             | Some metricFamily \<Rightarrow>
                 forEach (\<lambda>c familyMetric.
                    let modelName = GetLabelValueForKey env familyMetric ''model_name'' in
                    case GetHistogramValue env familyMetric of
                      Inl err \<Rightarrow> Return c
                    | Inr (hSum, hCount, hBuckets) \<Rightarrow>
                        (case updatePodRecordLocked c (Name pod) modelName metricName
                                (MetricScope metric) (HistogramMetricValue hSum hCount hBuckets) of
                           Panic msg \<Rightarrow> Panic msg
                         | Return (c', err) \<Rightarrow> Return c'))
                   (Metric metricFamily) c))
       (histogramMetricNames env) c"

definition updateQueryLabelMetricFromRawMetricsLocked ::
  "'m Collaborators \<Rightarrow> Store \<Rightarrow> Pod \<Rightarrow> (string \<rightharpoonup> 'm MetricFamily) \<Rightarrow> Store result" where
  "updateQueryLabelMetricFromRawMetricsLocked env c pod allMetrics =
     forEach (\<lambda>c labelMetricName.
        case Metrics env labelMetricName of
          None \<Rightarrow> Return c
        | Some metric \<Rightarrow>
            (case allMetrics (''vllm:'' @ RawMetricName metric) of
               None \<Rightarrow> Return c
             | Some metricFamily \<Rightarrow>
                 forEach (\<lambda>c familyMetric.
                    let modelName = GetLabelValueForKey env familyMetric ''model_name'';
                        labelValue = GetLabelValueForKey env familyMetric labelMetricName in
                    case updatePodRecordLocked c (Name pod) modelName labelMetricName
                           (MetricScope metric) (LabelValueMetricValue labelValue) of
                      Panic msg \<Rightarrow> Panic msg
                    | Return (c', err) \<Rightarrow> Return c')
                   (Metric metricFamily) c))
       (labelQueryMetricNames env) c"

text \<open>Calling \<open>Query\<close> on a nil \<open>prometheusApi\<close> is a nil dereference, which panics.\<close>

definition queryUpdatePromQLMetricsLocked ::
  "'m Collaborators \<Rightarrow> Store \<Rightarrow> Metric \<Rightarrow> (string \<rightharpoonup> string) \<Rightarrow> string \<Rightarrow> string \<Rightarrow> string \<Rightarrow>
   (Store \<times> error option) result" where
  "queryUpdatePromQLMetricsLocked env c metric queryLabels podName modelName metricName =
     (let scope = MetricScope metric;
          query = BuildQuery env (PromQL metric) queryLabels
      in case prometheusApi c of
           None \<Rightarrow> Panic ''nil pointer dereference''
         | Some api \<Rightarrow>
             (case api query of
                (queryResult, Some err) \<Rightarrow> Return (c, Some (External ''error executing query''))
              | (queryResult, None) \<Rightarrow>
                  (case updatePodRecordLocked c podName modelName metricName scope
                          (PrometheusMetricValue queryResult) of
                     Panic msg \<Rightarrow> Panic msg
                   | Return (c', Some err) \<Rightarrow>
                       Return (c', Some (External ''failed to update metrics from prometheus''))
                   | Return (c', None) \<Rightarrow> Return (c', None))))"

definition updateMetricFromPromQLLocked :: "'m Collaborators \<Rightarrow> Store \<Rightarrow> Pod \<Rightarrow> Store result" where
  "updateMetricFromPromQLLocked env c pod =
     forEach (\<lambda>c metricName.
        let queryLabels = [''instance'' \<mapsto> PodIP pod @ '':8000''] in
        case Metrics env metricName of
          None \<Rightarrow> Return c
        | Some metric \<Rightarrow>
            (let scope = MetricScope metric in
             if scope = PodMetricScope then
               (case queryUpdatePromQLMetricsLocked env c metric queryLabels (Name pod) ''''
                       metricName of
                  Panic msg \<Rightarrow> Panic msg
                | Return (c', err) \<Rightarrow> Return c')
             else if scope = PodModelMetricScope then
               (case PodToModelMapping c (Name pod) of
                  Some modelNames \<Rightarrow>
                    forEach (\<lambda>c modelName.
                       case queryUpdatePromQLMetricsLocked env c metric
                              (queryLabels(''model_name'' \<mapsto> modelName)) (Name pod) modelName
                              metricName of
                         Panic msg \<Rightarrow> Panic msg
                       | Return (c', err) \<Rightarrow> Return c')
                      modelNames c
                | None \<Rightarrow> Return c)
             else Return c))
       (prometheusMetricNames env) c"

text \<open>
  The body of the loop of \<open>updatePodMetrics\<close> for one ready pod, on the store and the
  events so far.
\<close>

definition podUrl :: "Pod \<Rightarrow> string" where
  "podUrl pod = ''http://'' @ PodIP pod @ '':8000/metrics''"

definition ensureRows :: "Store \<Rightarrow> string \<Rightarrow> Store" where
  "ensureRows c podName =
     (let c1 = (if lenZero (PodMetrics c podName)
                then c\<lparr>PodMetrics := (PodMetrics c)(podName \<mapsto> Map.empty)\<rparr> else c)
      in if lenZero (PodModelMetrics c1 podName)
         then c1\<lparr>PodModelMetrics := (PodModelMetrics c1)(podName \<mapsto> Map.empty)\<rparr> else c1)"

definition updatePodMetrics_body ::
  "'m Collaborators \<Rightarrow> Store \<times> event list \<Rightarrow> Pod \<Rightarrow> (Store \<times> event list) result" where
  "updatePodMetrics_body env s pod =
     (let c2 = ensureRows (fst s) (Name pod);
          url = podUrl pod;
          allMetrics = fst (ParseMetricsURL env url);
          err = snd (ParseMetricsURL env url);
          evs1 = snd s @ [HttpGet url] @
                 (if err \<noteq> None then [Klog ''Error parsing metric families''] else [])
      in (case updateSimpleMetricFromRawMetricsLocked env c2 pod allMetrics of
            Panic msg \<Rightarrow> Panic msg
          | Return c3 \<Rightarrow>
              (case updateHistogramMetricFromRawMetricsLocked env c3 pod allMetrics of
                 Panic msg \<Rightarrow> Panic msg
               | Return c4 \<Rightarrow>
                   (case updateQueryLabelMetricFromRawMetricsLocked env c4 pod allMetrics of
                      Panic msg \<Rightarrow> Panic msg
                    | Return c5 \<Rightarrow>
                        (if prometheusApi c5 = None then
                           Return (c5, evs1 @ [Klog ''Prometheus api is not initialized''])
                         else
                           (case updateMetricFromPromQLLocked env c5 pod of
                              Panic msg \<Rightarrow> Panic msg
                            | Return c6 \<Rightarrow> Return (c6, evs1)))))))"

text \<open>
  \<open>updatePodMetrics\<close>: the lock first, the unlock deferred to the return.
\<close>

definition updatePodMetrics :: "'m Collaborators \<Rightarrow> Store \<Rightarrow> (Store \<times> event list) result" where
  "updatePodMetrics env c =
     (let evs = [MuLock];
          readyPods = FilterReadyPods (Pods c)
      in if length readyPods = 0 then Return (c, evs @ [MuUnlock])
         else (case forEach (updatePodMetrics_body env) readyPods (c, evs) of
                 Panic msg \<Rightarrow> Panic msg
               | Return (c', evs') \<Rightarrow> Return (c', evs' @ [MuUnlock])))"

subsection \<open>The refresh interval\<close>

text \<open>
  Modelled from the spec: \<open>utils.LoadEnv\<close> is not part of the sources; it returns the
  value of an environment variable, or the default when the variable is not set.
  \<open>strconv.Atoi\<close> is the Go library's: an optional sign, then one or more decimal
  digits, and an error when the number does not fit an \<open>int\<close> of 64 bits.
\<close>

definition LoadEnv :: "(string \<rightharpoonup> string) \<Rightarrow> string \<Rightarrow> string \<Rightarrow> string" where
  "LoadEnv environ key defaultValue = (case environ key of None \<Rightarrow> defaultValue | Some v \<Rightarrow> v)"

definition isDigit :: "char \<Rightarrow> bool" where
  "isDigit ch = (ch \<in> set ''0123456789'')"

definition digitsValue :: "string \<Rightarrow> int" where
  "digitsValue s = foldl (\<lambda>acc ch. acc * 10 + (of_char ch - 48)) 0 s"

definition Atoi :: "string \<Rightarrow> int option" where
  "Atoi s =
     (let signed = (s \<noteq> [] \<and> (hd s = CHR ''+'' \<or> hd s = CHR ''-''));
          neg = (s \<noteq> [] \<and> hd s = CHR ''-'');
          digits = (if signed then tl s else s)
      in if digits = [] \<or> \<not> list_all isDigit digits then None
         else (let n = digitsValue digits in
               if neg then (if n > 2 ^ 63 then None else Some (- n))
               else (if n \<ge> 2 ^ 63 then None else Some n)))"

text \<open>
  \<open>time.Duration\<close> is an \<open>int64\<close> of nanoseconds and its product with
  \<open>time.Millisecond\<close> wraps around, so the interval is a 64-bit word, read with \<open>sint\<close>.
  The function returns the interval and the \<open>klog\<close> lines it wrote.
\<close>

definition Millisecond :: "64 word" where
  "Millisecond = 1000000"

definition defaultPodMetricRefreshIntervalInMS :: "64 word" where
  "defaultPodMetricRefreshIntervalInMS = 50"

definition getPodMetricRefreshInterval :: "(string \<rightharpoonup> string) \<Rightarrow> 64 word \<times> string list" where
  "getPodMetricRefreshInterval environ =
     (let v = LoadEnv environ ''AIBRIX_POD_METRIC_REFRESH_INTERVAL_MS'' '''';
          fallback = (defaultPodMetricRefreshIntervalInMS * Millisecond,
                      [''using default refresh interval''])
      in if v \<noteq> '''' then
           (case Atoi v of
              None \<Rightarrow>
                (fst fallback,
                 ''invalid AIBRIX_POD_METRIC_REFRESH_INTERVAL_MS, falling back to default''
                   # snd fallback)
            | Some intValue \<Rightarrow>
                if intValue \<le> 0 then
                  (fst fallback,
                   ''invalid AIBRIX_POD_METRIC_REFRESH_INTERVAL_MS, falling back to default''
                     # snd fallback)
                else
                  (word_of_int intValue * Millisecond,
                   [''using AIBRIX_POD_METRIC_REFRESH_INTERVAL_MS env value'']))
         else fallback)"

subsection \<open>The start of the trace loop\<close>

text \<open>
  \<open>initTraceCache\<close> up to the entry of its ticking loop, as the steps it takes in order.
  The constants \<open>RequestTraceWriteInterval\<close> and \<open>MaxRequestTraceIntervalOffset\<close> are
  declared in a file that is not part of the sources and are parameters; the other
  inputs are whether \<open>redisClient\<close> is not nil and \<open>time.Now().UnixNano()\<close>. Go's \<open>%\<close>
  truncates towards zero, which is \<open>smod\<close>. The durations are \<open>int\<close>: no step overflows
  64 bits for an interval below \<open>2 ^ 62\<close>.
\<close>

datatype traceStep = NewTimer int | NewTicker int | AwaitTimer | EnterTickLoop | GoroutineReturn

definition initTraceCache :: "int \<Rightarrow> int \<Rightarrow> bool \<Rightarrow> int \<Rightarrow> traceStep list" where
  "initTraceCache RequestTraceWriteInterval MaxRequestTraceIntervalOffset redisClient nowUnixNano =
     (let tickerOffset = nowUnixNano smod RequestTraceWriteInterval;
          withTimer = (tickerOffset > MaxRequestTraceIntervalOffset)
      in (if withTimer then [NewTimer (RequestTraceWriteInterval - tickerOffset)]
          else [NewTicker RequestTraceWriteInterval]) @
         (if \<not> redisClient then [GoroutineReturn]
          else (if withTimer then [AwaitTimer, NewTicker RequestTraceWriteInterval] else []) @
               [EnterTickLoop]))"

subsection \<open>A scenario of the spec\<close>

text \<open>
  The scenario of the spec's testable properties: one key, the value 5 recorded at
  the seconds 0 to 9, on a client whose fetcher reaches no pod.
\<close>

definition noFetcher :: "Pod \<Rightarrow> int \<Rightarrow> string \<Rightarrow> error + real" where
  "noFetcher pod port metricName = Inl (External ''unreachable'')"

definition scenarioKey :: NamespaceNameMetric where
  "scenarioKey = (''default'', ''llm'', ''num_requests_running'')"

definition scenarioCalls :: "KPACall list" where
  "scenarioCalls = map (\<lambda>t. CallUpdateMetricIntoWindow scenarioKey (t * Second) 5) [0..9]"

text \<open>
  The average that the spec describes, at a time \<open>t\<close>, of the panic window and of the
  stable window that a client holds for a key.
\<close>

definition panicAvgAt :: "KPAMetricsClient \<Rightarrow> NamespaceNameMetric \<Rightarrow> int \<Rightarrow> (error + real) option" where
  "panicAvgAt c k t = map_option (\<lambda>w. AvgAt w t) (panicWindowDict c k)"

definition stableAvgAt :: "KPAMetricsClient \<Rightarrow> NamespaceNameMetric \<Rightarrow> int \<Rightarrow> (error + real) option" where
  "stableAvgAt c k t = map_option (\<lambda>w. AvgAt w t) (stableWindowDict c k)"


subsection \<open>Notions for stating the properties of the store\<close>

text \<open>
  A pod has its rows when both tables hold one for its name. \<open>onlyRowsOf podName c c'\<close>
  says that \<open>c'\<close> differs from \<open>c\<close> at most in the rows of that one pod.
\<close>

definition rowsExist :: "Store \<Rightarrow> string \<Rightarrow> bool" where
  "rowsExist c podName = (PodMetrics c podName \<noteq> None \<and> PodModelMetrics c podName \<noteq> None)"

definition onlyRowsOf :: "string \<Rightarrow> Store \<Rightarrow> Store \<Rightarrow> bool" where
  "onlyRowsOf podName c c' =
     (prometheusApi c' = prometheusApi c \<and> Pods c' = Pods c \<and>
      PodToModelMapping c' = PodToModelMapping c \<and>
      PodMetrics c' = (PodMetrics c)(podName := PodMetrics c' podName) \<and>
      PodModelMetrics c' = (PodModelMetrics c)(podName := PodModelMetrics c' podName))"

definition rowInv :: "string \<Rightarrow> Store \<Rightarrow> Store \<Rightarrow> bool" where
  "rowInv podName c0 c = (rowsExist c podName \<and> onlyRowsOf podName c0 c)"

text \<open>
  The events of one pod in a refresh cycle: the request, the line that logs a failed
  fetch, and the line that logs a missing Prometheus API.
\<close>

definition podEvents ::
  "'m Collaborators \<Rightarrow> (string \<Rightarrow> string \<times> error option) option \<Rightarrow> Pod \<Rightarrow> event list" where
  "podEvents env api pod =
     [HttpGet (podUrl pod)] @
     (if snd (ParseMetricsURL env (podUrl pod)) \<noteq> None
      then [Klog ''Error parsing metric families''] else []) @
     (if api = None then [Klog ''Prometheus api is not initialized''] else [])"

fun fetchedUrls :: "event list \<Rightarrow> string list" where
  "fetchedUrls [] = []"
| "fetchedUrls (HttpGet url # evs) = url # fetchedUrls evs"
| "fetchedUrls (ev # evs) = fetchedUrls evs"


fun eventsOf :: "(Store \<times> event list) result \<Rightarrow> event list option" where
  "eventsOf (Return s) = Some (snd s)"
| "eventsOf (Panic msg) = None"

subsection \<open>Two pods, one of them unreachable\<close>

text \<open>
  A store with two ready pods and no Prometheus API. The metrics endpoint of
  \<open>pod-a\<close> cannot be fetched; \<open>pod-b\<close> reports three running requests for one model.
  A \<open>dto.Metric\<close> is here the pair of its model name and its value. The fetcher of the
  autoscaler's client fails on \<open>pod-a\<close> in the same way.
\<close>

definition podA :: Pod where
  "podA = \<lparr>Name = ''pod-a'', PodIP = ''10.0.0.1'', Ready = True\<rparr>"

definition podB :: Pod where
  "podB = \<lparr>Name = ''pod-b'', PodIP = ''10.0.0.2'', Ready = True\<rparr>"

definition exampleCollaborators :: "(string \<times> real) Collaborators" where
  "exampleCollaborators =
     \<lparr>ParseMetricsURL = (\<lambda>url.
         if url = ''http://10.0.0.1:8000/metrics''
         then (Map.empty, Some (External ''connection refused''))
         else ([''vllm:num_requests_running'' \<mapsto> \<lparr>Type = 1, Metric = [(''llama'', 3)]\<rparr>], None)),
      Metrics = [''num_requests_running'' \<mapsto>
         \<lparr>MetricScope = PodModelMetricScope, RawMetricName = ''num_requests_running'',
          PromQL = ''''\<rparr>],
      GetLabelValueForKey = (\<lambda>m key. if key = ''model_name'' then fst m else ''''),
      GetCounterGaugeValue = (\<lambda>m t. Inr (snd m)),
      GetHistogramValue = (\<lambda>m. Inl (External ''not a histogram'')),
      BuildQuery = (\<lambda>q labels. q),
      counterGaugeMetricNames = [''num_requests_running''],
      histogramMetricNames = [],
      prometheusMetricNames = [],
      labelQueryMetricNames = []\<rparr>"

definition exampleStore :: Store where
  "exampleStore =
     \<lparr>prometheusApi = None,
      Pods = [(''pod-a'', podA), (''pod-b'', podB)],
      PodMetrics = Map.empty,
      PodModelMetrics = Map.empty,
      PodToModelMapping = Map.empty\<rparr>"


section \<open>Properties of the metric clients\<close>

subsection \<open>The window\<close>

lemma accumulate_eq:
  "accumulate w now bs (s, n) =
     (s + sum_list (map val (filter (inRange w now) bs)), n + length (filter (inRange w now) bs))"
  by (induction bs arbitrary: s n) simp_all

lemma AvgAt_mean:
  "AvgAt w now =
     (if validSamples w now = [] then Inl EmptyWindow
      else Inr (unweightedMean (validSamples w now)))"
  by (simp add: AvgAt_def accumulate_eq validSamples_def unweightedMean_def)


lemma filter_update_replicate:
  assumes "i < n" and "\<not> P e"
  shows "filter P ((replicate n e)[i := b]) = (if P b then [b] else [])"
proof -
  have "(replicate n e)[i := b] = replicate i e @ b # replicate (n - Suc i) e"
    using assms(1) by (simp add: upd_conv_take_nth_drop min_def)
  then show ?thesis using assms(2) by simp
qed

text \<open>A fresh window that has recorded one sample averages to that sample.\<close>

lemma Avg_single_sample:
  assumes "0 < g" and "g \<le> d"
  shows "Avg (Record (NewTimeWindow d g) t v) = Inr v"
proof -
  define n where "n = nat (d div g)"
  define slot where "slot = t div g"
  define b where "b = \<lparr>start = slot * g, val = v, populated = True\<rparr>"
  define e where "e = \<lparr>start = 0, val = 0, populated = False\<rparr>"
  have "g div g \<le> d div g" using assms by (intro zdiv_mono1) simp_all
  then have "1 \<le> d div g" using assms(1) by simp
  then have n: "0 < n" by (simp add: n_def)
  have i: "nat (slot mod int n) < n" using n by (simp add: nat_less_iff)
  have w: "Record (NewTimeWindow d g) t v =
      \<lparr>tw_duration = d, tw_granularity = g, buckets = (replicate n e)[nat (slot mod int n) := b],
       lastRecord = Some t\<rparr>"
    using assms n by (simp add: Record_def NewTimeWindow_def Let_def n_def slot_def b_def e_def)
  have split: "slot * g + t mod g = t" by (simp add: slot_def)
  have "0 \<le> t mod g" and "t mod g < g" using assms(1) by simp_all
  with split assms(2) have lo: "slot * g \<le> t" and hi: "t - d \<le> slot * g" by linarith+
  have inb: "inRange (Record (NewTimeWindow d g) t v) t b"
    using lo hi by (simp add: w inRange_def b_def)
  have ine: "\<not> inRange (Record (NewTimeWindow d g) t v) t e"
    by (simp add: inRange_def e_def)
  have "validSamples (Record (NewTimeWindow d g) t v) t = [v]"
    unfolding validSamples_def
    using filter_update_replicate [of "nat (slot mod int n)" n
        "inRange (Record (NewTimeWindow d g) t v) t" e b] i ine inb
    by (simp add: w b_def)
  then show ?thesis
    by (simp add: Avg_def w AvgAt_mean unweightedMean_def)
qed

subsection \<open>Updates\<close>

lemma foldl_add_sum_list: "foldl (+) a xs = a + sum_list (xs :: real list)"
  by (induction xs arbitrary: a) simp_all

text \<open>
  Where no step rounds, the loop gives the sum of the reals. With the rounding of
  \<open>float64\<close>, where \<open>1e16 + 1\<close> is \<open>1e16\<close>, the list \<open>[1e16, 1, -1e16]\<close> sums to 0 and
  not to 1.
\<close>

lemma sumMetricValue_exact: "sumMetricValue (+) xs = sum_list xs"
  by (simp add: sumMetricValue_def foldl_add_sum_list)

lemma sumMetricValue_rounds:
  assumes "add64 0 (10 ^ 16) = 10 ^ 16" and "add64 (10 ^ 16) 1 = 10 ^ 16"
    and "add64 (10 ^ 16) (- (10 ^ 16)) = 0"
  shows "sumMetricValue add64 [10 ^ 16, 1, - (10 ^ 16)] = 0"
  using assms by (simp add: sumMetricValue_def)

lemma sumMetricValue_Nil: "sumMetricValue add64 [] = 0"
  by (simp add: sumMetricValue_def)

lemma sumMetricValue_snoc:
  "sumMetricValue add64 (vs @ [v]) = add64 (sumMetricValue add64 vs) v"
  by (simp add: sumMetricValue_def)

lemma UpdatePodListMetric_forwards:
  "UpdatePodListMetric add64 c vs k t = UpdateMetricIntoWindow c k t (sumMetricValue add64 vs)"
  by (simp add: UpdatePodListMetric_def UpdateMetricIntoWindow_def Let_def)

lemma APA_UpdatePodListMetric_forwards:
  "APA_UpdatePodListMetric add64 c vs k t =
     APA_UpdateMetricIntoWindow c k t (sumMetricValue add64 vs)"
  by (simp add: APA_UpdatePodListMetric_def APA_UpdateMetricIntoWindow_def)

lemma updateWindow_same:
  "updateWindow g k t v m d k =
     Some (Record (case m k of None \<Rightarrow> NewTimeWindow d g | Some w \<Rightarrow> w) t v)"
  by (simp add: updateWindow_def Let_def)

lemma dom_updateWindow: "dom (updateWindow g k t v m d) = insert k (dom m)"
  by (simp add: updateWindow_def Let_def)

text \<open>
  What every call keeps: the configuration of the constructor, and one window of each
  kind for exactly the keys that were updated.
\<close>

lemma applyCall_config:
  "granularity (applyCall add64 c x) = granularity c \<and>
   panicDuration (applyCall add64 c x) = panicDuration c \<and>
   stableDuration (applyCall add64 c x) = stableDuration c"
  by (cases x) (simp_all add: UpdatePodListMetric_forwards UpdateMetricIntoWindow_def Let_def)

lemma applyCall_dom:
  "dom (panicWindowDict (applyCall add64 c x)) = insert (callKey x) (dom (panicWindowDict c)) \<and>
   dom (stableWindowDict (applyCall add64 c x)) =
     insert (callKey x) (dom (stableWindowDict c))"
  by (cases x)
     (simp_all add: UpdatePodListMetric_forwards UpdateMetricIntoWindow_def Let_def dom_updateWindow)

lemma foldl_applyCall_adder_free:
  "foldl (applyCall add64) c (map (\<lambda>t. CallUpdateMetricIntoWindow k (g t) v) ts) =
   foldl (applyCall add64') c (map (\<lambda>t. CallUpdateMetricIntoWindow k (g t) v) ts)"
  by (induction ts arbitrary: c) simp_all

text \<open>The calls of the scenario sum no list: the addition plays no part in them.\<close>

lemma scenario_adder_free:
  "clientAfter add64 f scenarioCalls = clientAfter (+) f scenarioCalls"
  unfolding clientAfter_def scenarioCalls_def
  by (rule foldl_applyCall_adder_free)

lemma clientAfter_config:
  "granularity (clientAfter add64 f calls) = Second \<and>
   panicDuration (clientAfter add64 f calls) = 10 * Second \<and>
   stableDuration (clientAfter add64 f calls) = 60 * Second"
proof (induction calls rule: rev_induct)
  case Nil
  show ?case by (simp add: clientAfter_def NewKPAMetricsClient_def)
next
  case (snoc x xs)
  then show ?case using applyCall_config [of add64 "clientAfter add64 f xs" x]
    by (simp add: clientAfter_def)
qed

lemma clientAfter_dom:
  "dom (panicWindowDict (clientAfter add64 f calls)) = callKey ` set calls \<and>
   dom (stableWindowDict (clientAfter add64 f calls)) = callKey ` set calls"
proof (induction calls rule: rev_induct)
  case Nil
  show ?case by (simp add: clientAfter_def NewKPAMetricsClient_def)
next
  case (snoc x xs)
  then show ?case using applyCall_dom [of add64 "clientAfter add64 f xs" x]
    by (simp add: clientAfter_def)
qed

subsection \<open>Reads\<close>






subsection \<open>The first update of a key\<close>

lemma UpdateMetricIntoWindow_fresh:
  assumes "panicWindowDict c k = None" and "stableWindowDict c k = None"
    and "0 < granularity c" and "granularity c \<le> panicDuration c"
    and "granularity c \<le> stableDuration c"
  shows "panicWindowDict (fst (UpdateMetricIntoWindow c k now v)) k =
           Some (Record (NewTimeWindow (panicDuration c) (granularity c)) now v)"
    and "stableWindowDict (fst (UpdateMetricIntoWindow c k now v)) k =
           Some (Record (NewTimeWindow (stableDuration c) (granularity c)) now v)"
    and "StableAndPanicMetrics (fst (UpdateMetricIntoWindow c k now v)) k now' = (v, v, None)"
proof -
  show p: "panicWindowDict (fst (UpdateMetricIntoWindow c k now v)) k =
           Some (Record (NewTimeWindow (panicDuration c) (granularity c)) now v)"
    using assms(1) by (simp add: UpdateMetricIntoWindow_def Let_def updateWindow_same)
  show s: "stableWindowDict (fst (UpdateMetricIntoWindow c k now v)) k =
           Some (Record (NewTimeWindow (stableDuration c) (granularity c)) now v)"
    using assms(2) by (simp add: UpdateMetricIntoWindow_def Let_def updateWindow_same)
  show "StableAndPanicMetrics (fst (UpdateMetricIntoWindow c k now v)) k now' = (v, v, None)"
    using assms(3-5) by (simp add: StableAndPanicMetrics_def p s Avg_single_sample)
qed

text \<open>
  C3. For a key that no earlier call named, in any state the client's methods can
  produce: neither window exists before; one call of \<open>UpdateMetricIntoWindow\<close> creates
  the panic window (10 s) and the stable window (60 s) at the granularity of 1 s,
  records the sample in both and returns no error; and \<open>StableAndPanicMetrics\<close> for the
  same key and time then succeeds with the recorded value as both averages.
\<close>

theorem first_update_reads_back:
  assumes "k \<notin> callKey ` set calls"
  shows "panicWindowDict (clientAfter add64 f calls) k = None \<and>
         stableWindowDict (clientAfter add64 f calls) k = None \<and>
         panicWindowDict (fst (UpdateMetricIntoWindow (clientAfter add64 f calls) k now v)) k =
           Some (Record (NewTimeWindow (10 * Second) Second) now v) \<and>
         stableWindowDict (fst (UpdateMetricIntoWindow (clientAfter add64 f calls) k now v)) k =
           Some (Record (NewTimeWindow (60 * Second) Second) now v) \<and>
         snd (UpdateMetricIntoWindow (clientAfter add64 f calls) k now v) = None \<and>
         StableAndPanicMetrics (fst (UpdateMetricIntoWindow (clientAfter add64 f calls) k now v)) k now =
           (v, v, None)"
proof -
  have none: "panicWindowDict (clientAfter add64 f calls) k = None"
    "stableWindowDict (clientAfter add64 f calls) k = None"
    using assms clientAfter_dom [of add64 f calls] by (auto simp: domIff)
  have cfg: "0 < granularity (clientAfter add64 f calls)"
    "granularity (clientAfter add64 f calls) \<le> panicDuration (clientAfter add64 f calls)"
    "granularity (clientAfter add64 f calls) \<le> stableDuration (clientAfter add64 f calls)"
    by (simp_all add: clientAfter_config Second_def)
  show ?thesis
    using UpdateMetricIntoWindow_fresh [OF none cfg] none
    by (simp add: clientAfter_config) (simp add: UpdateMetricIntoWindow_def Let_def)
qed

theorem first_update_reads_back_witness:
  "(''default'', ''llm'', ''gpu_cache_usage_perc'') \<notin> callKey ` set scenarioCalls \<and>
   StableAndPanicMetrics
     (fst (UpdateMetricIntoWindow (clientAfter (+) noFetcher scenarioCalls)
        (''default'', ''llm'', ''gpu_cache_usage_perc'') (12 * Second) (7 / 2)))
     (''default'', ''llm'', ''gpu_cache_usage_perc'') (12 * Second) = (7 / 2, 7 / 2, None)"
proof -
  have fresh: "(''default'', ''llm'', ''gpu_cache_usage_perc'') \<notin> callKey ` set scenarioCalls"
    by code_simp
  show ?thesis
    using first_update_reads_back
      [OF fresh, where ?add64.0 = "(+)" and f = noFetcher and now = "12 * Second" and v = "7 / 2"]
      fresh
    by simp
qed

subsection \<open>The sample of a pod list\<close>

text \<open>
  C4. Both \<open>UpdatePodListMetric\<close> (dual-window and single-window client) forward the sum
  of the list, not its mean, to their \<open>UpdateMetricIntoWindow\<close>. The sum is the one the
  loop computes in \<open>float64\<close>: 0 for the empty list, which is accepted, and for a list
  with one more value the \<open>float64\<close> sum of the sum so far and that value, so that three
  values \<open>v1\<close>, \<open>v2\<close>, \<open>v3\<close> give \<open>((0 + v1) + v2) + v3\<close>; where these additions are
  exact, \<open>[1, 2, 3]\<close> gives 6 and not the mean 2. No error is returned, and after the
  call the window of the key is the earlier window (a new one if there was none) with
  that sum recorded at the time of the call.
\<close>

theorem UpdatePodListMetric_records_sum:
  "UpdatePodListMetric add64 c vs k now =
     UpdateMetricIntoWindow c k now (sumMetricValue add64 vs) \<and>
   APA_UpdatePodListMetric add64 a vs k now =
     APA_UpdateMetricIntoWindow a k now (sumMetricValue add64 vs) \<and>
   sumMetricValue add64 [] = 0 \<and>
   sumMetricValue add64 (vs @ [v]) = add64 (sumMetricValue add64 vs) v \<and>
   sumMetricValue add64 [v1, v2, v3] = add64 (add64 (add64 0 v1) v2) v3 \<and>
   (add64 0 1 = 1 \<and> add64 1 2 = 3 \<and> add64 3 3 = 6 \<longrightarrow>
      sumMetricValue add64 [1, 2, 3] = 6) \<and>
   UpdatePodListMetric add64 c [] k now = UpdateMetricIntoWindow c k now 0 \<and>
   APA_UpdatePodListMetric add64 a [] k now = APA_UpdateMetricIntoWindow a k now 0 \<and>
   snd (UpdatePodListMetric add64 c vs k now) = None \<and>
   snd (APA_UpdatePodListMetric add64 a vs k now) = None \<and>
   panicWindowDict (fst (UpdatePodListMetric add64 c vs k now)) k =
     Some (Record (case panicWindowDict c k of
                     None \<Rightarrow> NewTimeWindow (panicDuration c) (granularity c)
                   | Some w \<Rightarrow> w) now (sumMetricValue add64 vs)) \<and>
   stableWindowDict (fst (UpdatePodListMetric add64 c vs k now)) k =
     Some (Record (case stableWindowDict c k of
                     None \<Rightarrow> NewTimeWindow (stableDuration c) (granularity c)
                   | Some w \<Rightarrow> w) now (sumMetricValue add64 vs)) \<and>
   windowDict (fst (APA_UpdatePodListMetric add64 a vs k now)) k =
     Some (Record (case windowDict a k of
                     None \<Rightarrow> NewTimeWindow (apa_duration a) (apa_granularity a)
                   | Some w \<Rightarrow> w) now (sumMetricValue add64 vs))"
proof -
  have loop: "sumMetricValue add64 [] = 0"
    "sumMetricValue add64 (vs @ [v]) = add64 (sumMetricValue add64 vs) v"
    "sumMetricValue add64 [v1, v2, v3] = add64 (add64 (add64 0 v1) v2) v3"
    by (simp_all add: sumMetricValue_def)
  have small: "add64 0 1 = 1 \<and> add64 1 2 = 3 \<and> add64 3 3 = 6 \<longrightarrow>
      sumMetricValue add64 [1, 2, 3] = 6"
    by (simp add: sumMetricValue_def)
  have forwards: "UpdatePodListMetric add64 c vs k now =
      UpdateMetricIntoWindow c k now (sumMetricValue add64 vs)"
    "APA_UpdatePodListMetric add64 a vs k now =
      APA_UpdateMetricIntoWindow a k now (sumMetricValue add64 vs)"
    "UpdatePodListMetric add64 c [] k now = UpdateMetricIntoWindow c k now 0"
    "APA_UpdatePodListMetric add64 a [] k now = APA_UpdateMetricIntoWindow a k now 0"
    by (simp_all add: UpdatePodListMetric_forwards APA_UpdatePodListMetric_forwards
        sumMetricValue_Nil)
  have windows: "snd (UpdatePodListMetric add64 c vs k now) = None"
    "snd (APA_UpdatePodListMetric add64 a vs k now) = None"
    "panicWindowDict (fst (UpdatePodListMetric add64 c vs k now)) k =
       Some (Record (case panicWindowDict c k of
                       None \<Rightarrow> NewTimeWindow (panicDuration c) (granularity c)
                     | Some w \<Rightarrow> w) now (sumMetricValue add64 vs))"
    "stableWindowDict (fst (UpdatePodListMetric add64 c vs k now)) k =
       Some (Record (case stableWindowDict c k of
                       None \<Rightarrow> NewTimeWindow (stableDuration c) (granularity c)
                     | Some w \<Rightarrow> w) now (sumMetricValue add64 vs))"
    "windowDict (fst (APA_UpdatePodListMetric add64 a vs k now)) k =
       Some (Record (case windowDict a k of
                       None \<Rightarrow> NewTimeWindow (apa_duration a) (apa_granularity a)
                     | Some w \<Rightarrow> w) now (sumMetricValue add64 vs))"
    by (simp_all add: UpdatePodListMetric_forwards APA_UpdatePodListMetric_forwards
        UpdateMetricIntoWindow_def APA_UpdateMetricIntoWindow_def Let_def updateWindow_same)
  from loop small forwards windows show ?thesis by blast
qed

text \<open>
  The three small additions are exact in \<open>float64\<close> as they are in the reals.
\<close>

theorem UpdatePodListMetric_records_sum_witness:
  "((0::real) + 1 = 1 \<and> (1::real) + 2 = 3 \<and> (3::real) + 3 = 6) \<and>
   sumMetricValue (+) [1, 2, 3] = 6 \<and>
   UpdatePodListMetric (+) (NewKPAMetricsClient noFetcher) [1, 2, 3] scenarioKey 0 =
     UpdateMetricIntoWindow (NewKPAMetricsClient noFetcher) scenarioKey 0 6"
  using UpdatePodListMetric_records_sum
    [where ?add64.0 = "(+)" and c = "NewKPAMetricsClient noFetcher" and vs = "[1, 2, 3]"
       and k = scenarioKey and now = 0]
  by simp

subsection \<open>The base client\<close>

text \<open>
  C10. \<open>UpdatePodListMetric\<close> of the base \<open>PodMetricClient\<close> panics with
  \<open>implement me\<close> on every input, so it never returns, neither an error nor
  \<open>nil\<close>; the methods of the same name of the dual-window and of the single-window
  client return, with no error.
\<close>

theorem base_UpdatePodListMetric_panics:
  "PodMetricClient_UpdatePodListMetric b vs k now = Panic ''implement me'' \<and>
   (\<forall>err. PodMetricClient_UpdatePodListMetric b vs k now \<noteq> Return err) \<and>
   snd (UpdatePodListMetric add64 c vs k now) = None \<and>
   snd (APA_UpdatePodListMetric add64 a vs k now) = None"
  by (simp add: PodMetricClient_UpdatePodListMetric_def UpdatePodListMetric_forwards
      APA_UpdatePodListMetric_forwards UpdateMetricIntoWindow_def APA_UpdateMetricIntoWindow_def
      Let_def)

subsection \<open>The time a reader supplies\<close>

lemma readers_with_Avg:
  "StableAndPanicMetrics c k now = StableAndPanicMetricsWith Avg c k now \<and>
   GetMetricValue a k now = GetMetricValueWith Avg a k now"
  by (simp add: StableAndPanicMetrics_def StableAndPanicMetricsWith_def GetMetricValue_def
      GetMetricValueWith_def)

text \<open>
  C2 (as amended). For every window and time \<open>t\<close>, the average at \<open>t\<close> is the unweighted
  mean of the populated buckets whose start lies in \<open>[t - duration, t]\<close>, and it fails
  with EmptyWindow exactly when no bucket in that range is populated. The readers do not
  supply \<open>t\<close>: \<open>StableAndPanicMetrics\<close> and \<open>GetMetricValue\<close> call \<open>Avg\<close> with no
  argument and do not pass their \<open>now\<close>, so whatever \<open>Avg\<close> computes, their result is
  the same for every \<open>now\<close> they are given.
\<close>

theorem reader_time_ignored:
  "AvgAt w t =
     (if validSamples w t = [] then Inl EmptyWindow else Inr (unweightedMean (validSamples w t))) \<and>
   StableAndPanicMetricsWith avg c k now = StableAndPanicMetricsWith avg c k now' \<and>
   GetMetricValueWith avg a k now = GetMetricValueWith avg a k now'"
proof (intro conjI)
  show "AvgAt w t =
     (if validSamples w t = [] then Inl EmptyWindow else Inr (unweightedMean (validSamples w t)))"
    by (rule AvgAt_mean)
  show "StableAndPanicMetricsWith avg c k now = StableAndPanicMetricsWith avg c k now'"
    by (simp add: StableAndPanicMetricsWith_def)
  show "GetMetricValueWith avg a k now = GetMetricValueWith avg a k now'"
    by (simp add: GetMetricValueWith_def)
qed

text \<open>
  The claim as the spec states it fails on the spec's own scenario. After the value 5
  was recorded at the seconds 0 to 9, the average the spec describes is 5 for both
  windows at second 10 and EmptyWindow for both at second 100, where no bucket lies in
  range. By the claim the read at second 10 returns 5 twice and the read at second 100
  fails with EmptyWindow. The two reads run the same code on the same windows: no
  method \<open>Avg\<close> makes the reader answer so at both times.
\<close>

theorem reader_time_counterexample:
  "panicAvgAt (clientAfter (+) noFetcher scenarioCalls) scenarioKey (10 * Second) =
     Some (Inr 5) \<and>
   stableAvgAt (clientAfter (+) noFetcher scenarioCalls) scenarioKey (10 * Second) =
     Some (Inr 5) \<and>
   panicAvgAt (clientAfter (+) noFetcher scenarioCalls) scenarioKey (100 * Second) =
     Some (Inl EmptyWindow) \<and>
   stableAvgAt (clientAfter (+) noFetcher scenarioCalls) scenarioKey (100 * Second) =
     Some (Inl EmptyWindow) \<and>
   \<not> (\<exists>avg.
        StableAndPanicMetricsWith avg (clientAfter (+) noFetcher scenarioCalls) scenarioKey
          (10 * Second) = (5, 5, None) \<and>
        StableAndPanicMetricsWith avg (clientAfter (+) noFetcher scenarioCalls) scenarioKey
          (100 * Second) = (-1, -1, Some EmptyWindow))"
proof -
  have spec: "panicAvgAt (clientAfter (+) noFetcher scenarioCalls) scenarioKey (10 * Second) =
      Some (Inr 5)"
    "stableAvgAt (clientAfter (+) noFetcher scenarioCalls) scenarioKey (10 * Second) =
      Some (Inr 5)"
    "panicAvgAt (clientAfter (+) noFetcher scenarioCalls) scenarioKey (100 * Second) =
      Some (Inl EmptyWindow)"
    "stableAvgAt (clientAfter (+) noFetcher scenarioCalls) scenarioKey (100 * Second) =
      Some (Inl EmptyWindow)"
    by code_simp+
  have reader: "\<not> (\<exists>avg.
        StableAndPanicMetricsWith avg (clientAfter (+) noFetcher scenarioCalls) scenarioKey
          (10 * Second) = (5, 5, None) \<and>
        StableAndPanicMetricsWith avg (clientAfter (+) noFetcher scenarioCalls) scenarioKey
          (100 * Second) = (-1, -1, Some EmptyWindow))"
  proof
    assume "\<exists>avg.
        StableAndPanicMetricsWith avg (clientAfter (+) noFetcher scenarioCalls) scenarioKey
          (10 * Second) = (5, 5, None) \<and>
        StableAndPanicMetricsWith avg (clientAfter (+) noFetcher scenarioCalls) scenarioKey
          (100 * Second) = (-1, -1, Some EmptyWindow)"
    then obtain avg where
      early: "StableAndPanicMetricsWith avg (clientAfter (+) noFetcher scenarioCalls) scenarioKey
          (10 * Second) = (5, 5, None)"
      and late: "StableAndPanicMetricsWith avg (clientAfter (+) noFetcher scenarioCalls)
          scenarioKey (100 * Second) = (-1, -1, Some EmptyWindow)"
      by blast
    have "StableAndPanicMetricsWith avg (clientAfter (+) noFetcher scenarioCalls) scenarioKey
          (10 * Second) =
        StableAndPanicMetricsWith avg (clientAfter (+) noFetcher scenarioCalls) scenarioKey
          (100 * Second)"
      by (simp add: StableAndPanicMetricsWith_def)
    with early late show False by simp
  qed
  from spec reader show ?thesis by blast
qed

section \<open>Properties of the metric store\<close>

subsection \<open>Loops that keep an invariant\<close>

lemma forEach_inv:
  assumes "\<And>s x. P s \<Longrightarrow> \<exists>s'. body s x = Return s' \<and> P s'" and "P s"
  shows "\<exists>s'. forEach body xs s = Return s' \<and> P s'"
  using assms(2)
proof (induction xs arbitrary: s)
  case Nil
  then show ?case by simp
next
  case (Cons x xs)
  from assms(1) [OF Cons.prems] obtain s1 where s1: "body s x = Return s1" "P s1" by blast
  from Cons.IH [OF s1(2)] show ?case by (simp add: s1(1))
qed


lemma forEach_rowInv:
  assumes "\<And>s x. rowInv n c0 s \<Longrightarrow> \<exists>s'. body s x = Return s' \<and> rowInv n c0 s'"
    and "rowInv n c0 s"
  shows "\<exists>s'. forEach body xs s = Return s' \<and> rowInv n c0 s'"
  using forEach_inv [where P = "rowInv n c0", OF assms] .

subsection \<open>Writing a record\<close>

text \<open>
  C5. \<open>updatePodRecordLocked\<close> enforces the scope invariant. With the scope
  \<open>PodMetricScope\<close> and a model name that is not empty it returns a scope-mismatch
  error, and with the scope \<open>PodModelMetricScope\<close> and the empty model name it returns a
  scope-mismatch error; in both cases the store it returns is the store it was given, so
  \<open>PodMetrics\<close> and \<open>PodModelMetrics\<close> are unmodified.
\<close>

theorem updatePodRecordLocked_scope_mismatch:
  "(modelName \<noteq> '''' \<longrightarrow>
      updatePodRecordLocked c podName modelName metricName PodMetricScope v =
        Return (c, Some (ScopeMismatch ''modelName should be empty for scope''))) \<and>
   updatePodRecordLocked c podName '''' metricName PodModelMetricScope v =
     Return (c, Some (ScopeMismatch ''modelName should not be empty for scope''))"
  by (simp add: updatePodRecordLocked_def)

text \<open>Both mismatches on the store of the two pods.\<close>

theorem updatePodRecordLocked_scope_mismatch_witness:
  "''llama'' \<noteq> '''' \<and>
   updatePodRecordLocked exampleStore ''pod-a'' ''llama'' ''gpu_cache_usage_perc'' PodMetricScope
       (SimpleMetricValue (1 / 2)) =
     Return (exampleStore, Some (ScopeMismatch ''modelName should be empty for scope'')) \<and>
   updatePodRecordLocked exampleStore ''pod-a'' '''' ''num_requests_running'' PodModelMetricScope
       (SimpleMetricValue 3) =
     Return (exampleStore, Some (ScopeMismatch ''modelName should not be empty for scope''))"
  using updatePodRecordLocked_scope_mismatch
    [of "''llama''" exampleStore "''pod-a''" "''gpu_cache_usage_perc''" "SimpleMetricValue (1 / 2)"]
    updatePodRecordLocked_scope_mismatch
    [of "''llama''" exampleStore "''pod-a''" "''num_requests_running''" "SimpleMetricValue 3"]
  by simp

text \<open>
  A record written for a pod that has its rows does not panic, keeps the rows, and
  changes nothing but the rows of that pod.
\<close>

lemma updatePodRecordLocked_inv:
  assumes "rowsExist c n" and "onlyRowsOf n c0 c"
  shows "\<exists>c' e. updatePodRecordLocked c n modelName metricName scope v = Return (c', e) \<and>
           rowsExist c' n \<and> onlyRowsOf n c0 c'"
proof -
  from assms(1) obtain row models where row: "PodMetrics c n = Some row"
    and models: "PodModelMetrics c n = Some models"
    by (auto simp: rowsExist_def)
  show ?thesis
    using assms row models
    by (auto simp: updatePodRecordLocked_def rowsExist_def onlyRowsOf_def Let_def lenZero_def
        split: option.splits)
qed

lemma record_step:
  assumes "rowInv n c0 c"
  shows "\<exists>c'. (case updatePodRecordLocked c n modelName metricName scope v of
                 Panic msg \<Rightarrow> Panic msg
               | Return (c', err) \<Rightarrow> Return c') = Return c' \<and> rowInv n c0 c'"
proof -
  from assms updatePodRecordLocked_inv [of c n c0 modelName metricName scope v]
  obtain c' e where "updatePodRecordLocked c n modelName metricName scope v = Return (c', e)"
    and "rowInv n c0 c'"
    by (auto simp: rowInv_def)
  then show ?thesis by simp
qed

subsection \<open>The helpers of the refresh cycle\<close>

lemma updateSimple_inv:
  assumes "rowInv (Name pod) c0 c"
  shows "\<exists>c'. updateSimpleMetricFromRawMetricsLocked env c pod allMetrics = Return c' \<and>
           rowInv (Name pod) c0 c'"
  unfolding updateSimpleMetricFromRawMetricsLocked_def
  by (rule forEach_rowInv [OF _ assms])
     (auto split: option.splits sum.splits simp: Let_def intro!: forEach_rowInv record_step)

lemma updateHistogram_inv:
  assumes "rowInv (Name pod) c0 c"
  shows "\<exists>c'. updateHistogramMetricFromRawMetricsLocked env c pod allMetrics = Return c' \<and>
           rowInv (Name pod) c0 c'"
  unfolding updateHistogramMetricFromRawMetricsLocked_def
  by (rule forEach_rowInv [OF _ assms])
     (auto split: option.splits sum.splits prod.splits simp: Let_def
       intro!: forEach_rowInv record_step)

lemma updateQueryLabel_inv:
  assumes "rowInv (Name pod) c0 c"
  shows "\<exists>c'. updateQueryLabelMetricFromRawMetricsLocked env c pod allMetrics = Return c' \<and>
           rowInv (Name pod) c0 c'"
  unfolding updateQueryLabelMetricFromRawMetricsLocked_def
  by (rule forEach_rowInv [OF _ assms])
     (auto split: option.splits sum.splits simp: Let_def intro!: forEach_rowInv record_step)

lemma queryUpdate_step:
  assumes "rowInv n c0 c" and "prometheusApi c0 \<noteq> None"
  shows "\<exists>c'. (case queryUpdatePromQLMetricsLocked env c metric queryLabels n modelName metricName of
                 Panic msg \<Rightarrow> Panic msg
               | Return (c', err) \<Rightarrow> Return c') = Return c' \<and> rowInv n c0 c'"
proof -
  from assms obtain api where api: "prometheusApi c = Some api"
    by (auto simp: rowInv_def onlyRowsOf_def)
  obtain r e where q: "api (BuildQuery env (PromQL metric) queryLabels) = (r, e)"
    by (cases "api (BuildQuery env (PromQL metric) queryLabels)")
  from assms(1) updatePodRecordLocked_inv
    [of c n c0 modelName metricName "MetricScope metric" "PrometheusMetricValue r"]
  obtain c' e' where u: "updatePodRecordLocked c n modelName metricName (MetricScope metric)
      (PrometheusMetricValue r) = Return (c', e')" and inv: "rowInv n c0 c'"
    by (auto simp: rowInv_def)
  show ?thesis
    using assms(1) inv
    by (cases e; cases e') (simp_all add: queryUpdatePromQLMetricsLocked_def Let_def api q u)
qed

lemma updateMetricFromPromQL_inv:
  assumes "rowInv (Name pod) c0 c" and "prometheusApi c0 \<noteq> None"
  shows "\<exists>c'. updateMetricFromPromQLLocked env c pod = Return c' \<and> rowInv (Name pod) c0 c'"
  unfolding updateMetricFromPromQLLocked_def
  by (rule forEach_rowInv [OF _ assms(1)])
     (auto split: option.splits simp: Let_def
       intro!: forEach_rowInv queryUpdate_step [OF _ assms(2)])




subsection \<open>The refresh cycle\<close>

lemma ensureRows_inv: "rowInv n c (ensureRows c n)"
  by (auto simp: rowInv_def rowsExist_def onlyRowsOf_def ensureRows_def lenZero_def Let_def
      split: option.splits)


lemma rowInv_api: "rowInv n c0 c \<Longrightarrow> prometheusApi c = prometheusApi c0"
  by (simp add: rowInv_def onlyRowsOf_def)

lemma body_returns:
  "\<exists>c'. updatePodMetrics_body env (c, evs) pod =
            Return (c', evs @ podEvents env (prometheusApi c) pod) \<and>
         rowInv (Name pod) c c'"
proof -
  define allMetrics where "allMetrics = fst (ParseMetricsURL env (podUrl pod))"
  obtain c3 where c3: "updateSimpleMetricFromRawMetricsLocked env (ensureRows c (Name pod)) pod
      allMetrics = Return c3" and i3: "rowInv (Name pod) c c3"
    using updateSimple_inv [OF ensureRows_inv] by blast
  obtain c4 where c4: "updateHistogramMetricFromRawMetricsLocked env c3 pod allMetrics = Return c4"
    and i4: "rowInv (Name pod) c c4"
    using updateHistogram_inv [OF i3] by blast
  obtain c5 where c5: "updateQueryLabelMetricFromRawMetricsLocked env c4 pod allMetrics = Return c5"
    and i5: "rowInv (Name pod) c c5"
    using updateQueryLabel_inv [OF i4] by blast
  have api: "prometheusApi c5 = prometheusApi c" using i5 by (rule rowInv_api)
  show ?thesis
  proof (cases "prometheusApi c")
    case None
    then show ?thesis
      using i5 api
      by (simp add: updatePodMetrics_body_def Let_def c3 c4 c5 podEvents_def
          flip: allMetrics_def)
  next
    case (Some a)
    then obtain c6 where c6: "updateMetricFromPromQLLocked env c5 pod = Return c6"
      and i6: "rowInv (Name pod) c c6"
      using updateMetricFromPromQL_inv [OF i5] by blast
    show ?thesis
      using i6 api Some
      by (simp add: updatePodMetrics_body_def Let_def c3 c4 c5 c6 podEvents_def
          flip: allMetrics_def)
  qed
qed


lemma loop_returns:
  "\<exists>c'. forEach (updatePodMetrics_body env) pods (c, evs) =
            Return (c', evs @ concat (map (podEvents env (prometheusApi c)) pods)) \<and>
         prometheusApi c' = prometheusApi c"
proof (induction pods arbitrary: c evs)
  case Nil
  show ?case by simp
next
  case (Cons pod pods)
  obtain c1 where c1: "updatePodMetrics_body env (c, evs) pod =
      Return (c1, evs @ podEvents env (prometheusApi c) pod)" and i1: "rowInv (Name pod) c c1"
    using body_returns by blast
  have api: "prometheusApi c1 = prometheusApi c" using i1 by (rule rowInv_api)
  from Cons.IH [of c1 "evs @ podEvents env (prometheusApi c) pod"]
  show ?case by (auto simp: c1 api)
qed



lemma updatePodMetrics_trace:
  "\<exists>c'. updatePodMetrics env c =
     Return (c', MuLock # concat (map (podEvents env (prometheusApi c)) (FilterReadyPods (Pods c)))
                 @ [MuUnlock])"
proof (cases "FilterReadyPods (Pods c)")
  case Nil
  then show ?thesis by (simp add: updatePodMetrics_def)
next
  case (Cons p ps)
  from loop_returns [of env "p # ps" c "[MuLock]"]
  obtain c' where "forEach (updatePodMetrics_body env) (p # ps) (c, [MuLock]) =
      Return (c', [MuLock] @ concat (map (podEvents env (prometheusApi c)) (p # ps)))"
    by blast
  then show ?thesis
    by (simp add: updatePodMetrics_def Cons)
qed

lemma podEvents_no_lock: "MuLock \<notin> set (podEvents env api pod) \<and> MuUnlock \<notin> set (podEvents env api pod)"
  by (simp add: podEvents_def)

lemma fetchedUrls_append: "fetchedUrls (xs @ ys) = fetchedUrls xs @ fetchedUrls ys"
  by (induction xs rule: fetchedUrls.induct) simp_all

lemma fetchedUrls_podEvents: "fetchedUrls (podEvents env api pod) = [podUrl pod]"
  by (simp add: podEvents_def)

lemma fetchedUrls_concat:
  "fetchedUrls (concat (map (podEvents env api) pods)) = map podUrl pods"
  by (induction pods) (simp_all add: fetchedUrls_append fetchedUrls_podEvents)


subsection \<open>The loop of the autoscaler client\<close>



subsection \<open>A failed fetch\<close>




subsection \<open>The lock of the refresh cycle\<close>

text \<open>
  C9 (as amended). \<open>updatePodMetrics\<close> locks the store's mutex once, first, and unlocks
  it once, last: every request of the cycle, one for each ready pod, lies between the
  two, and no lock or unlock lies between the updates of two pods. The lock is held
  across the whole cycle.
\<close>

theorem refresh_cycle_holds_lock_throughout:
  "\<exists>c' evs. updatePodMetrics env c = Return (c', MuLock # evs @ [MuUnlock]) \<and>
      MuLock \<notin> set evs \<and> MuUnlock \<notin> set evs \<and>
      fetchedUrls evs = map podUrl (FilterReadyPods (Pods c))"
proof -
  obtain c' where c': "updatePodMetrics env c =
     Return (c', MuLock # concat (map (podEvents env (prometheusApi c)) (FilterReadyPods (Pods c)))
                 @ [MuUnlock])"
    using updatePodMetrics_trace by blast
  show ?thesis
    using c' podEvents_no_lock fetchedUrls_concat by fastforce
qed

text \<open>
  The claim as the spec states it fails on the store of the two pods: the one lock is
  followed by the updates of both pods, and the one unlock comes after the second.
\<close>

theorem lock_per_instance_counterexample:
  "eventsOf (updatePodMetrics exampleCollaborators exampleStore) =
     Some [MuLock,
           HttpGet ''http://10.0.0.1:8000/metrics'', Klog ''Error parsing metric families'',
           Klog ''Prometheus api is not initialized'',
           HttpGet ''http://10.0.0.2:8000/metrics'',
           Klog ''Prometheus api is not initialized'',
           MuUnlock]"
proof -
  obtain c' where c': "updatePodMetrics exampleCollaborators exampleStore =
     Return (c', MuLock # concat (map (podEvents exampleCollaborators (prometheusApi exampleStore))
                                    (FilterReadyPods (Pods exampleStore))) @ [MuUnlock])"
    using updatePodMetrics_trace by blast
  have "concat (map (podEvents exampleCollaborators (prometheusApi exampleStore))
            (FilterReadyPods (Pods exampleStore))) =
     [HttpGet ''http://10.0.0.1:8000/metrics'', Klog ''Error parsing metric families'',
      Klog ''Prometheus api is not initialized'',
      HttpGet ''http://10.0.0.2:8000/metrics'',
      Klog ''Prometheus api is not initialized'']"
    by (simp add: exampleStore_def FilterReadyPods_def podA_def podB_def podEvents_def
        podUrl_def exampleCollaborators_def)
  with c' show ?thesis by simp
qed

section \<open>Properties of the periodic drivers\<close>

subsection \<open>The refresh interval\<close>

text \<open>
  What the function does by design: the default of 50 ms when the variable is not set,
  or when its value is not an integer or not positive; and \<open>n\<close> ms for a positive
  \<open>n\<close> whose product with a million fits 64 bits.
\<close>

lemma Atoi_empty: "Atoi '''' = None"
  by (simp add: Atoi_def)

lemma interval_unset:
  "environ ''AIBRIX_POD_METRIC_REFRESH_INTERVAL_MS'' = None \<Longrightarrow>
   getPodMetricRefreshInterval environ = (50000000, [''using default refresh interval''])"
  by (simp add: getPodMetricRefreshInterval_def LoadEnv_def Millisecond_def
      defaultPodMetricRefreshIntervalInMS_def)

lemma interval_invalid:
  assumes "environ ''AIBRIX_POD_METRIC_REFRESH_INTERVAL_MS'' = Some v"
    and "Atoi v = None \<or> (\<exists>n. Atoi v = Some n \<and> n \<le> 0)"
  shows "fst (getPodMetricRefreshInterval environ) = 50000000"
  using assms
  by (auto simp: getPodMetricRefreshInterval_def LoadEnv_def Millisecond_def
      defaultPodMetricRefreshIntervalInMS_def Let_def)

lemma interval_valid:
  assumes "environ ''AIBRIX_POD_METRIC_REFRESH_INTERVAL_MS'' = Some v"
    and "Atoi v = Some n" and "0 < n" and "n \<le> 9223372036854"
  shows "sint (fst (getPodMetricRefreshInterval environ)) = n * 1000000"
proof -
  have ne: "v \<noteq> ''''" using assms(2) Atoi_empty by auto
  have "fst (getPodMetricRefreshInterval environ) = word_of_int (n * 1000000)"
    using assms ne
    by (simp add: getPodMetricRefreshInterval_def LoadEnv_def Millisecond_def Let_def)
  moreover have "sint (word_of_int (n * 1000000) :: 64 word) =
      (n * 1000000 + 2 ^ 63) mod 2 ^ 64 - 2 ^ 63"
    by (subst int_word_sint) simp
  moreover have "(n * 1000000 + 2 ^ 63) mod 2 ^ 64 = n * 1000000 + (2 ^ 63 :: int)"
    using assms(3,4) by (intro mod_pos_pos_trivial) simp_all
  ultimately show ?thesis by simp
qed

text \<open>
  C8. The claim gives \<open>n\<close> milliseconds for every value that parses as a positive
  integer \<open>n\<close>. The source multiplies the parsed \<open>int\<close> by \<open>time.Millisecond\<close> in 64
  bits and has no guard for the product: the value \<open>9223372036855\<close> parses, is positive,
  and yields a negative interval of \<open>-9223372036854551616\<close> nanoseconds instead of
  \<open>9223372036855\<close> milliseconds.
\<close>

theorem refresh_interval_overflows:
  "Atoi ''9223372036855'' = Some 9223372036855 \<and>
   sint (fst (getPodMetricRefreshInterval
     [''AIBRIX_POD_METRIC_REFRESH_INTERVAL_MS'' \<mapsto> ''9223372036855''])) =
     - 9223372036854551616"
  by code_simp

subsection \<open>The start of the trace loop\<close>

lemma smod_above_nonneg:
  fixes i m now :: int
  assumes "0 < i" and "0 \<le> m" and "m < now smod i"
  shows "0 < now" and "now smod i = now mod i"
proof -
  have pos: "0 < now smod i" using assms(2,3) by linarith
  show "0 < now"
  proof (rule ccontr)
    assume "\<not> 0 < now"
    then have "sgn now \<le> 0" by (simp add: sgn_if)
    moreover have "0 \<le> \<bar>now\<bar> mod \<bar>i\<bar>" using assms(1) by simp
    ultimately have "now smod i \<le> 0"
      by (simp add: smod_int_alt_def mult_nonpos_nonneg)
    with pos show False by simp
  qed
  then show "now smod i = now mod i"
    using assms(1) by (simp add: smod_int_alt_def)
qed

text \<open>
  C7 (as amended). For a positive write interval and a maximal offset that is not
  negative: when the offset of the current time in the interval is above the maximal
  offset, \<open>initTraceCache\<close> waits on a one-shot timer of (interval - offset), which ends
  on a multiple of the interval, and only then starts the periodic ticker; when the
  offset is at most the maximal offset, it starts the periodic ticker at once, with no
  delay; and when there is no redis client the goroutine returns without waiting and
  without ticking.
\<close>

theorem initTraceCache_alignment:
  assumes "0 < interval" and "0 \<le> maxOffset"
  shows "(maxOffset < now smod interval \<longrightarrow>
            initTraceCache interval maxOffset True now =
              [NewTimer (interval - now smod interval), AwaitTimer, NewTicker interval,
               EnterTickLoop] \<and>
            0 < interval - now smod interval \<and>
            interval - now smod interval < interval \<and>
            (now + (interval - now smod interval)) mod interval = 0) \<and>
         (now smod interval \<le> maxOffset \<longrightarrow>
            initTraceCache interval maxOffset True now = [NewTicker interval, EnterTickLoop]) \<and>
         initTraceCache interval maxOffset False now =
           [if maxOffset < now smod interval then NewTimer (interval - now smod interval)
            else NewTicker interval, GoroutineReturn]"
proof (intro conjI impI)
  assume above: "maxOffset < now smod interval"
  note m = smod_above_nonneg [OF assms above]
  show "initTraceCache interval maxOffset True now =
      [NewTimer (interval - now smod interval), AwaitTimer, NewTicker interval, EnterTickLoop]"
    using above by (simp add: initTraceCache_def Let_def)
  show "0 < interval - now smod interval"
    using assms(1) by (simp add: m(2))
  show "interval - now smod interval < interval"
    using assms(2) above by simp
  have "(now + (interval - now mod interval)) mod interval =
        (interval + (now - now mod interval)) mod interval"
    by (simp add: algebra_simps)
  also have "\<dots> = (now - now mod interval) mod interval"
    by simp
  also have "\<dots> = 0"
    by (simp add: minus_mod_eq_mult_div)
  finally show "(now + (interval - now smod interval)) mod interval = 0"
    by (simp add: m(2))
next
  assume "now smod interval \<le> maxOffset"
  then show "initTraceCache interval maxOffset True now = [NewTicker interval, EnterTickLoop]"
    by (simp add: initTraceCache_def Let_def)
next
  show "initTraceCache interval maxOffset False now =
      [if maxOffset < now smod interval then NewTimer (interval - now smod interval)
       else NewTicker interval, GoroutineReturn]"
    by (simp add: initTraceCache_def Let_def)
qed

text \<open>
  With an interval of 10 s and a maximal offset of 500 ms: 3.2 s into an interval the
  timer waits the 6.8 s to the next boundary; 0.2 s into an interval there is no timer.
\<close>

theorem initTraceCache_alignment_witness:
  "(0::int) < 10 * Second \<and> (0::int) \<le> Second div 2 \<and>
   Second div 2 < (1700000000 * Second + 3200000000) smod (10 * Second) \<and>
   initTraceCache (10 * Second) (Second div 2) True (1700000000 * Second + 3200000000) =
     [NewTimer 6800000000, AwaitTimer, NewTicker (10 * Second), EnterTickLoop] \<and>
   (1700000000 * Second + 3200000000 + 6800000000) mod (10 * Second) = 0 \<and>
   (1700000000 * Second + 200000000) smod (10 * Second) \<le> Second div 2 \<and>
   initTraceCache (10 * Second) (Second div 2) True (1700000000 * Second + 200000000) =
     [NewTicker (10 * Second), EnterTickLoop]"
proof -
  have i: "(0::int) < 10 * Second" and m: "(0::int) \<le> Second div 2"
    by (simp_all add: Second_def)
  have o1: "(1700000000 * Second + 3200000000) smod (10 * Second) = 3200000000"
    by (simp add: Second_def smod_int_alt_def)
  have o2: "(1700000000 * Second + 200000000) smod (10 * Second) = 200000000"
    by (simp add: Second_def smod_int_alt_def)
  show ?thesis
    using initTraceCache_alignment [OF i m, of "1700000000 * Second + 3200000000"]
      initTraceCache_alignment [OF i m, of "1700000000 * Second + 200000000"]
    by (simp add: o1 o2) (simp add: Second_def)
qed

text \<open>
  The claim as the spec states it fails 0.2 s into an interval: no timer is
  created or awaited, the ticker starts at once and its first tick, one interval later,
  is 0.2 s past the boundary. On a boundary itself there is no delay whatever the
  constants are.
\<close>

theorem initTraceCache_no_delay_counterexample:
  "initTraceCache (10 * Second) (Second div 2) True (1700000000 * Second + 200000000) =
     [NewTicker (10 * Second), EnterTickLoop] \<and>
   (1700000000 * Second + 200000000) smod (10 * Second) = 200000000 \<and>
   (1700000000 * Second + 200000000 + 10 * Second) mod (10 * Second) = 200000000"
  by (simp add: initTraceCache_def Second_def smod_int_alt_def)

lemma initTraceCache_on_boundary:
  "0 \<le> maxOffset \<Longrightarrow> initTraceCache interval maxOffset True 0 =
     [NewTicker interval, EnterTickLoop]"
  by (simp add: initTraceCache_def)

end
